theory Spec2Isabelle
  imports Main "HOL-Library.Word"
begin

section \<open>JavaScript values\<close>

text \<open>
  The values the client handles: the \<open>apiKey\<close> and \<open>options\<close> arguments of the
  constructor, the payload of a capability method and the value \<open>response.json()\<close>
  resolves to. Functions, symbols, BigInts and objects with a prototype of their own
  (Date, String objects) are outside the model. \<open>VNum n\<close> is the integer-valued number
  \<open>sint n\<close> of a signed word of 54 bits: the integers from \<open>-2^53\<close> to \<open>2^53 - 1\<close>, each
  of which a JavaScript number holds exactly and prints in full decimal. No other number
  (a fraction, a larger magnitude, an infinity) is a value of the model; \<open>VNaN\<close> is
  \<open>NaN\<close>. An object is its list of own string-keyed properties in enumeration order (keys
  distinct), with \<open>Object.prototype\<close> as its prototype. Strings are byte strings (UTF-8).
\<close>

datatype jsval =
    VUndefined
  | VNull
  | VBool bool
  | VNum "54 word"
  | VNaN
  | VStr string
  | VArr "jsval list"
  | VObj "(string \<times> jsval) list"

text \<open>
  A JSON document: what a JSON text denotes. The body of a request is kept as the
  document its text denotes, not as the text.
\<close>

datatype json =
    JNull
  | JBool bool
  | JNum "54 word"
  | JStr string
  | JArr "json list"
  | JObj "(string \<times> json) list"

text \<open>
  Exceptions. The runtime raises \<open>TypeError\<close> (a property read on \<open>null\<close>, a call of
  something that is no function, a failed \<open>fetch\<close>), \<open>SyntaxError\<close> (a body that is no
  JSON) and \<open>AbortError\<close>. The client itself only ever raises \<open>new Error(message)\<close>;
  \<open>_request\<close> then assigns \<open>error.status\<close> and \<open>error.response\<close>, the constructor leaves
  them unset (\<open>None\<close>).
\<close>

datatype native_error = TypeError | SyntaxError | AbortError

datatype exn =
    Error string "nat option" "jsval option"
  | Native native_error

subsection \<open>Truthiness, property reads, \<open>||\<close>\<close>

text \<open>\<open>ToBoolean\<close>: what \<open>!x\<close> and \<open>x || y\<close> test.\<close>

fun truthy :: "jsval \<Rightarrow> bool" where
  "truthy VUndefined = False"
| "truthy VNull = False"
| "truthy (VBool b) = b"
| "truthy (VNum n) = (n \<noteq> 0)"
| "truthy VNaN = False"
| "truthy (VStr s) = (s \<noteq> [])"
| "truthy (VArr xs) = True"
| "truthy (VObj kvs) = True"

definition js_or :: "jsval \<Rightarrow> jsval \<Rightarrow> jsval" where
  "js_or a b = (if truthy a then a else b)"

text \<open>
  \<open>x.k\<close>, for the property names the client reads (\<open>baseUrl\<close>, \<open>error\<close>, \<open>message\<close>):
  none of them is a property of a built-in prototype, so the read finds an own property
  of an object or \<open>undefined\<close>; on \<open>null\<close> and \<open>undefined\<close> it raises.
\<close>

fun get_prop :: "jsval \<Rightarrow> string \<Rightarrow> exn + jsval" where
  "get_prop VUndefined k = Inl (Native TypeError)"
| "get_prop VNull k = Inl (Native TypeError)"
| "get_prop (VObj kvs) k = Inr (case map_of kvs k of None \<Rightarrow> VUndefined | Some v \<Rightarrow> v)"
| "get_prop x k = Inr VUndefined"

text \<open>\<open>x?.k\<close>: \<open>undefined\<close> where \<open>x\<close> is \<open>null\<close> or \<open>undefined\<close>, else \<open>x.k\<close>.\<close>

definition opt_chain :: "jsval \<Rightarrow> string \<Rightarrow> jsval" where
  "opt_chain x k = (case get_prop x k of Inl e \<Rightarrow> VUndefined | Inr v \<Rightarrow> v)"

subsection \<open>Conversion to string\<close>

definition digit :: "nat \<Rightarrow> char" where
  "digit d = ''0123456789'' ! d"

fun show_nat :: "nat \<Rightarrow> string" where
  "show_nat n = (if n < 10 then [digit n] else show_nat (n div 10) @ [digit (n mod 10)])"

declare show_nat.simps [simp del]

definition show_int :: "int \<Rightarrow> string" where
  "show_int i = (if i < 0 then CHR ''-'' # show_nat (nat (- i)) else show_nat (nat i))"

text \<open>
  \<open>ToString\<close>, as a template literal applies it. A number of the model is below
  \<open>10^21\<close> in magnitude and an integer a double holds exactly, so its string is its
  decimal numeral. An array is its elements joined by
  commas, \<open>null\<close> and \<open>undefined\<close> elements as the empty string. An object is
  \<open>[object Object]\<close> through \<open>Object.prototype.toString\<close>; an own property \<open>toString\<close>
  (never a function here) shadows it, and then the conversion raises a TypeError.
\<close>

fun ToString :: "jsval \<Rightarrow> exn + string"
  and join_elems :: "jsval list \<Rightarrow> exn + string" where
  "ToString VUndefined = Inr ''undefined''"
| "ToString VNull = Inr ''null''"
| "ToString (VBool b) = Inr (if b then ''true'' else ''false'')"
| "ToString (VNum n) = Inr (show_int (sint n))"
| "ToString VNaN = Inr ''NaN''"
| "ToString (VStr s) = Inr s"
| "ToString (VArr xs) = join_elems xs"
| "ToString (VObj kvs) =
     (if ''toString'' \<in> fst ` set kvs then Inl (Native TypeError)
      else Inr ''[object Object]'')"
| "join_elems [] = Inr []"
| "join_elems (x # xs) =
     (case (if x = VUndefined \<or> x = VNull then Inr [] else ToString x) of
        Inl e \<Rightarrow> Inl e
      | Inr s \<Rightarrow>
          (if xs = [] then Inr s
           else (case join_elems xs of
                   Inl e \<Rightarrow> Inl e
                 | Inr t \<Rightarrow> Inr (s @ '','' @ t))))"

text \<open>
  The values with no string form: an object with a property \<open>toString\<close> of its own,
  and an array that holds such a value (at any depth).
\<close>

fun no_string_form :: "jsval \<Rightarrow> bool"
  and no_string_form_elems :: "jsval list \<Rightarrow> bool" where
  "no_string_form (VObj kvs) = (''toString'' \<in> fst ` set kvs)"
| "no_string_form (VArr xs) = no_string_form_elems xs"
| "no_string_form v = False"
| "no_string_form_elems [] = False"
| "no_string_form_elems (x # xs) = (no_string_form x \<or> no_string_form_elems xs)"

subsection \<open>\<open>JSON.stringify\<close>\<close>

text \<open>
  \<open>JSON.stringify(v)\<close> with no replacer, as the document its result denotes
  (\<open>SerializeJSONProperty\<close>, \<open>SerializeJSONArray\<close>, \<open>SerializeJSONObject\<close>):
  \<open>undefined\<close> has no serialisation (\<open>None\<close>: the call returns \<open>undefined\<close>); \<open>NaN\<close> is
  written \<open>null\<close>; an array element with no serialisation is written \<open>null\<close>; an object
  property with no serialisation is left out.
\<close>

fun JSON_stringify :: "jsval \<Rightarrow> json option"
  and stringify_elems :: "jsval list \<Rightarrow> json list"
  and stringify_props :: "(string \<times> jsval) list \<Rightarrow> (string \<times> json) list" where
  "JSON_stringify VUndefined = None"
| "JSON_stringify VNull = Some JNull"
| "JSON_stringify (VBool b) = Some (JBool b)"
| "JSON_stringify (VNum n) = Some (JNum n)"
| "JSON_stringify VNaN = Some JNull"
| "JSON_stringify (VStr s) = Some (JStr s)"
| "JSON_stringify (VArr xs) = Some (JArr (stringify_elems xs))"
| "JSON_stringify (VObj kvs) = Some (JObj (stringify_props kvs))"
| "stringify_elems [] = []"
| "stringify_elems (x # xs) =
     (case JSON_stringify x of None \<Rightarrow> JNull | Some j \<Rightarrow> j) # stringify_elems xs"
| "stringify_props [] = []"
| "stringify_props ((k, v) # kvs) =
     (case JSON_stringify v of
        None \<Rightarrow> stringify_props kvs
      | Some j \<Rightarrow> (k, j) # stringify_props kvs)"

text \<open>The JavaScript value a JSON document denotes (what \<open>JSON.parse\<close> builds).\<close>

fun of_json :: "json \<Rightarrow> jsval"
  and of_json_elems :: "json list \<Rightarrow> jsval list"
  and of_json_props :: "(string \<times> json) list \<Rightarrow> (string \<times> jsval) list" where
  "of_json JNull = VNull"
| "of_json (JBool b) = VBool b"
| "of_json (JNum n) = VNum n"
| "of_json (JStr s) = VStr s"
| "of_json (JArr xs) = VArr (of_json_elems xs)"
| "of_json (JObj kvs) = VObj (of_json_props kvs)"
| "of_json_elems [] = []"
| "of_json_elems (x # xs) = of_json x # of_json_elems xs"
| "of_json_props [] = []"
| "of_json_props ((k, v) # kvs) = (k, of_json v) # of_json_props kvs"

section \<open>The network\<close>

text \<open>
  What \<open>fetch(url, init)\<close> is given, and what it resolves to. Of a response the client
  reads \<open>status\<close>, \<open>ok\<close> and \<open>json()\<close>; \<open>json_outcome\<close> is what \<open>response.json()\<close> settles
  to: \<open>Inr v\<close> when the body is JSON for \<open>v\<close>, \<open>Inl e\<close> when the promise rejects with \<open>e\<close>
  (\<open>SyntaxError\<close> on a body that is no JSON).
\<close>

record http_request =
  url :: string
  http_method :: string
  headers :: "(string \<times> string) list"
  body :: "json option"

record http_response =
  status :: nat
  json_outcome :: "native_error + jsval"

text \<open>\<open>response.ok\<close>: the status is in the range 200 to 299.\<close>

definition ok :: "http_response \<Rightarrow> bool" where
  "ok r = (200 \<le> status r \<and> status r \<le> 299)"

text \<open>
  The world outside the client: \<open>server\<close> settles each request, with a response or
  with the exception \<open>fetch\<close> rejects with; \<open>requests\<close> are the requests handed to
  \<open>fetch\<close> so far, oldest first.
\<close>

record world =
  server :: "http_request \<Rightarrow> native_error + http_response"
  requests :: "http_request list"

definition fetch :: "http_request \<Rightarrow> world \<Rightarrow> (native_error + http_response) \<times> world" where
  "fetch rq w = (server w rq, w\<lparr>requests := requests w @ [rq]\<rparr>)"

section \<open>The client\<close>

record client =
  apiKey :: string
  baseUrl :: string

text \<open>\<open>s.replace(/\/$/, '')\<close> on a string: one slash at the very end is removed.\<close>

definition strip_trailing_slash :: "string \<Rightarrow> string" where
  "strip_trailing_slash s = (if s \<noteq> [] \<and> last s = CHR ''/'' then butlast s else s)"

text \<open>
  \<open>x.replace(/\/$/, '')\<close> on any value that is not \<open>null\<close> or \<open>undefined\<close>: only a string
  has a \<open>replace\<close> method; on a boolean, a number, an array or an object the call
  raises a TypeError.
\<close>

fun replace_trailing_slash :: "jsval \<Rightarrow> exn + string" where
  "replace_trailing_slash (VStr s) = Inr (strip_trailing_slash s)"
| "replace_trailing_slash x = Inl (Native TypeError)"

text \<open>
  \<open>new CleanFlux(apiKey, options = {})\<close>: the default \<open>{}\<close> stands in for an
  \<open>options\<close> that is \<open>undefined\<close>.
\<close>

definition constructor :: "jsval \<Rightarrow> jsval \<Rightarrow> exn + client" where
  "constructor apiKey' options' =
     (let options = (if options' = VUndefined then VObj [] else options') in
      if \<not> truthy apiKey' then
        Inl (Error ''CleanFlux: API key is required. Get yours at https://cleanflux.ai/dashboard''
               None None)
      else
        (case apiKey' of
           VStr k \<Rightarrow>
             (case get_prop options ''baseUrl'' of
                Inl e \<Rightarrow> Inl e
              | Inr b \<Rightarrow>
                  (case replace_trailing_slash (js_or b (VStr ''https://api.cleanflux.ai'')) of
                     Inl e \<Rightarrow> Inl e
                   | Inr s \<Rightarrow> Inr \<lparr>apiKey = k, baseUrl = s\<rparr>))
         | _ \<Rightarrow> Inl (Error ''CleanFlux: API key must be a string'' None None)))"

text \<open>
  \<open>_request(endpoint, payload)\<close>: one POST through \<open>fetch\<close>; a rejection of \<open>fetch\<close>
  propagates; \<open>response.json().catch(() => null)\<close> turns every rejection of the parse
  into \<open>null\<close>.
\<close>

definition private_request ::
    "client \<Rightarrow> string \<Rightarrow> jsval \<Rightarrow> world \<Rightarrow> (exn + jsval) \<times> world" where
  "private_request c endpoint payload w =
     (let (r, w') =
            fetch \<lparr>url = baseUrl c @ ''/api/'' @ endpoint,
                   http_method = ''POST'',
                   headers = [(''x-api-key'', apiKey c),
                              (''Content-Type'', ''application/json''),
                              (''User-Agent'', ''cleanflux-js/1.0.0'')],
                   body = JSON_stringify payload\<rparr> w
      in case r of
           Inl e \<Rightarrow> (Inl (Native e), w')
         | Inr response \<Rightarrow>
             (let data = (case json_outcome response of Inl e \<Rightarrow> VNull | Inr v \<Rightarrow> v) in
              if \<not> ok response then
                (let message =
                       js_or (js_or (opt_chain data ''error'') (opt_chain data ''message''))
                         (VStr (''Request failed with status '' @ show_nat (status response)))
                 in case ToString message of
                      Inl e \<Rightarrow> (Inl e, w')
                    | Inr s \<Rightarrow>
                        (Inl (Error (''CleanFlux API Error: '' @ s)
                                (Some (status response)) (Some data)), w'))
              else (Inr data, w')))"

definition clean :: "client \<Rightarrow> jsval \<Rightarrow> world \<Rightarrow> (exn + jsval) \<times> world" where
  "clean c payload = private_request c ''clean'' payload"

definition normalize_js :: "client \<Rightarrow> jsval \<Rightarrow> world \<Rightarrow> (exn + jsval) \<times> world" where
  "normalize_js c payload = private_request c ''normalize'' payload"

definition extractUrls :: "client \<Rightarrow> jsval \<Rightarrow> world \<Rightarrow> (exn + jsval) \<times> world" where
  "extractUrls c payload = private_request c ''extract-urls'' payload"

definition removeProfanity :: "client \<Rightarrow> jsval \<Rightarrow> world \<Rightarrow> (exn + jsval) \<times> world" where
  "removeProfanity c payload = private_request c ''remove-profanity'' payload"

definition metadata :: "client \<Rightarrow> jsval \<Rightarrow> world \<Rightarrow> (exn + jsval) \<times> world" where
  "metadata c payload = private_request c ''metadata'' payload"

text \<open>\<open>ping()\<close>: one GET; whatever \<open>response.json()\<close> settles to is the outcome.\<close>

definition ping :: "client \<Rightarrow> world \<Rightarrow> (exn + jsval) \<times> world" where
  "ping c w =
     (let (r, w') =
            fetch \<lparr>url = baseUrl c @ ''/api/ping'',
                   http_method = ''GET'',
                   headers = [(''User-Agent'', ''cleanflux-js/1.0.0'')],
                   body = None\<rparr> w
      in case r of
           Inl e \<Rightarrow> (Inl (Native e), w')
         | Inr response \<Rightarrow>
             (case json_outcome response of
                Inl e \<Rightarrow> (Inl (Native e), w')
              | Inr v \<Rightarrow> (Inr v, w')))"

text \<open>The capability methods, and the request a call hands to \<open>fetch\<close>.\<close>

definition capability_methods :: "(client \<Rightarrow> jsval \<Rightarrow> world \<Rightarrow> (exn + jsval) \<times> world) list" where
  "capability_methods = [clean, normalize_js, extractUrls, removeProfanity, metadata]"

definition issued :: "(exn + jsval) \<times> world \<Rightarrow> http_request" where
  "issued out = last (requests (snd out))"

section \<open>Notions of the specification\<close>

text \<open>
  The documented type of \<open>options\<close> (\<open>{Object} [options={}]\<close> with
  \<open>{string} [options.baseUrl]\<close>): left out, or an object whose \<open>baseUrl\<close> is left out,
  \<open>undefined\<close> or a string.
\<close>

definition options_well_typed :: "jsval \<Rightarrow> bool" where
  "options_well_typed opts =
     (case opts of
        VUndefined \<Rightarrow> True
      | VObj kvs \<Rightarrow>
          (case map_of kvs ''baseUrl'' of
             None \<Rightarrow> True
           | Some VUndefined \<Rightarrow> True
           | Some (VStr b) \<Rightarrow> True
           | Some _ \<Rightarrow> False)
      | _ \<Rightarrow> False)"

text \<open>How many times a string holds a double slash: two \<open>/\<close> side by side.\<close>

fun count_double_slash :: "string \<Rightarrow> nat" where
  "count_double_slash (a # b # s) =
     (if a = CHR ''/'' \<and> b = CHR ''/'' then 1 else 0) + count_double_slash (b # s)"
| "count_double_slash s = 0"

definition ends_with :: "string \<Rightarrow> string \<Rightarrow> bool" where
  "ends_with suf s = (take (length suf) (rev s) = rev suf)"

text \<open>
  The message of a failed call as the specification words it, to be compared with what
  \<open>_request\<close> chooses: the \<open>error\<close> field of the parsed body if present, else its
  \<open>message\<close> field if present, else the generic fallback.
\<close>

definition spec_message :: "jsval \<Rightarrow> nat \<Rightarrow> jsval" where
  "spec_message data code =
     (case data of
        VObj kvs \<Rightarrow>
          (case map_of kvs ''error'' of
             Some v \<Rightarrow> v
           | None \<Rightarrow>
               (case map_of kvs ''message'' of
                  Some v \<Rightarrow> v
                | None \<Rightarrow> VStr (''Request failed with status '' @ show_nat code)))
      | _ \<Rightarrow> VStr (''Request failed with status '' @ show_nat code))"

section \<open>Auxiliary facts\<close>

text \<open>Every number of the model is an integer from \<open>-2^53\<close> to \<open>2^53 - 1\<close>.\<close>

lemma VNum_safe_integer:
  fixes n :: "54 word"
  shows "- (2 ^ 53) \<le> sint n \<and> sint n < 2 ^ 53"
  using sint_ge [of n] sint_lt [of n] by simp

text \<open>
  The conversion to a string fails with a TypeError only, and on the values with no
  string form only.
\<close>

lemma ToString_defined:
  "(\<exists>s. ToString v = Inr s) = (\<not> no_string_form v)"
  "(\<exists>s. join_elems vs = Inr s) = (\<not> no_string_form_elems vs)"
  by (induction v and vs rule: ToString_join_elems.induct)
    (auto split: sum.splits)

lemma ToString_error:
  "ToString v = Inl e \<Longrightarrow> e = Native TypeError"
  "join_elems vs = Inl e \<Longrightarrow> e = Native TypeError"
  by (induction v and vs rule: ToString_join_elems.induct)
    (auto split: if_splits sum.splits)

lemma fetch_simps [simp]:
  "fst (fetch rq w) = server w rq"
  "requests (snd (fetch rq w)) = requests w @ [rq]"
  by (simp_all add: fetch_def)

lemma requests_private_request:
  "requests (snd (private_request c ep p w)) =
     requests w @ [\<lparr>url = baseUrl c @ ''/api/'' @ ep, http_method = ''POST'',
                      headers = [(''x-api-key'', apiKey c),
                                 (''Content-Type'', ''application/json''),
                                 (''User-Agent'', ''cleanflux-js/1.0.0'')],
                      body = JSON_stringify p\<rparr>]"
  by (simp add: private_request_def fetch_def Let_def split: sum.splits)

lemma issued_private_request:
  "issued (private_request c ep p w) =
     \<lparr>url = baseUrl c @ ''/api/'' @ ep, http_method = ''POST'',
      headers = [(''x-api-key'', apiKey c),
                 (''Content-Type'', ''application/json''),
                 (''User-Agent'', ''cleanflux-js/1.0.0'')],
      body = JSON_stringify p\<rparr>"
  by (simp add: issued_def requests_private_request)

lemma fst_private_request:
  assumes "server w (issued (private_request c ep p w)) = Inr resp"
  shows "fst (private_request c ep p w) =
     (let data = (case json_outcome resp of Inl e \<Rightarrow> VNull | Inr v \<Rightarrow> v) in
      if ok resp then Inr data
      else (case ToString (js_or (js_or (opt_chain data ''error'') (opt_chain data ''message''))
                     (VStr (''Request failed with status '' @ show_nat (status resp)))) of
              Inl e \<Rightarrow> Inl e
            | Inr s \<Rightarrow>
                Inl (Error (''CleanFlux API Error: '' @ s) (Some (status resp)) (Some data))))"
  using assms unfolding issued_private_request
  by (simp add: private_request_def fetch_def Let_def split: sum.splits)

lemma capability_cases:
  assumes "m \<in> set capability_methods"
  obtains ep where "m = (\<lambda>c p. private_request c ep p)"
  using assms
  by (auto simp: capability_methods_def clean_def normalize_js_def extractUrls_def
      removeProfanity_def metadata_def fun_eq_iff)

lemma stringify_of_json:
  "JSON_stringify (of_json d) = Some d"
  "stringify_elems (of_json_elems ds) = ds"
  "stringify_props (of_json_props kds) = kds"
  by (induction d and ds and kds rule: of_json_of_json_elems_of_json_props.induct) simp_all

lemma count_double_slash_Cons:
  "count_double_slash (x # b) =
     (if b \<noteq> [] \<and> x = CHR ''/'' \<and> hd b = CHR ''/'' then 1 else 0) + count_double_slash b"
  by (cases b) auto

lemma count_double_slash_append:
  "count_double_slash (a @ b) =
     count_double_slash a + count_double_slash b +
     (if a \<noteq> [] \<and> b \<noteq> [] \<and> last a = CHR ''/'' \<and> hd b = CHR ''/'' then 1 else 0)"
proof (induction a)
  case Nil
  then show ?case by simp
next
  case (Cons x a)
  then show ?case
    by (cases a) (auto simp: count_double_slash_Cons)
qed

lemma strip_no_trailing_slash:
  assumes "\<not> ends_with ''//'' b"
  shows "strip_trailing_slash b = [] \<or> last (strip_trailing_slash b) \<noteq> CHR ''/''"
proof (cases b rule: rev_cases)
  case Nil
  then show ?thesis by (simp add: strip_trailing_slash_def)
next
  case (snoc b' x)
  show ?thesis
  proof (cases b' rule: rev_cases)
    case Nil
    with snoc show ?thesis by (simp add: strip_trailing_slash_def)
  next
    case (snoc b'' y)
    with \<open>b = b' @ [x]\<close> assms show ?thesis
      by (auto simp: strip_trailing_slash_def ends_with_def butlast_append)
  qed
qed

lemma well_typed_base_is_string:
  assumes "options_well_typed opts"
  shows "\<exists>b. js_or (opt_chain opts ''baseUrl'') (VStr ''https://api.cleanflux.ai'') = VStr b"
proof (cases opts)
  case (VObj kvs)
  show ?thesis
  proof (cases "map_of kvs ''baseUrl''")
    case None
    with VObj show ?thesis by (simp add: opt_chain_def js_or_def)
  next
    case (Some v)
    with VObj assms show ?thesis
      by (cases v) (simp_all add: options_well_typed_def opt_chain_def js_or_def)
  qed
qed (use assms in \<open>simp_all add: options_well_typed_def opt_chain_def js_or_def\<close>)

lemma constructor_string_key:
  assumes "k \<noteq> []" and "opts \<noteq> VNull"
  shows "constructor (VStr k) opts =
     (case replace_trailing_slash
             (js_or (opt_chain opts ''baseUrl'') (VStr ''https://api.cleanflux.ai'')) of
        Inl e \<Rightarrow> Inl e
      | Inr s \<Rightarrow> Inr \<lparr>apiKey = k, baseUrl = s\<rparr>)"
  using assms
  by (cases opts) (simp_all add: constructor_def opt_chain_def Let_def)

section \<open>The request dispatch\<close>

text \<open>
  C1, as amended. For every call to a capability method, if the status of the response
  is outside 200 to 299 the call raises an error that carries the status and the whole
  parsed body (\<open>null\<close> when the body was no JSON). Its message is
  \<open>CleanFlux API Error: \<close> followed by the string form of the value chosen by priority:
  the \<open>error\<close> field of the parsed body if it is truthy, else the \<open>message\<close> field if it
  is truthy, else \<open>Request failed with status {code}\<close>. This is so for every chosen
  value that has a string form: every value but an object with a property \<open>toString\<close> of
  its own, or an array that holds one.
\<close>

theorem failure_raises_error:
  assumes "m \<in> set capability_methods"
    and "server w (issued (m c p w)) = Inr resp"
    and "\<not> (200 \<le> status resp \<and> status resp \<le> 299)"
    and "data = (case json_outcome resp of Inl e \<Rightarrow> VNull | Inr v \<Rightarrow> v)"
  shows "(truthy (opt_chain data ''error'') \<and> ToString (opt_chain data ''error'') = Inr s \<longrightarrow>
            fst (m c p w) =
              Inl (Error (''CleanFlux API Error: '' @ s) (Some (status resp)) (Some data))) \<and>
         (\<not> truthy (opt_chain data ''error'') \<and> truthy (opt_chain data ''message'') \<and>
          ToString (opt_chain data ''message'') = Inr s \<longrightarrow>
            fst (m c p w) =
              Inl (Error (''CleanFlux API Error: '' @ s) (Some (status resp)) (Some data))) \<and>
         (\<not> truthy (opt_chain data ''error'') \<and> \<not> truthy (opt_chain data ''message'') \<longrightarrow>
            fst (m c p w) =
              Inl (Error (''CleanFlux API Error: Request failed with status '' @
                            show_nat (status resp))
                     (Some (status resp)) (Some data))) \<and>
         (\<forall>v. (\<exists>s. ToString v = Inr s) = (\<not> no_string_form v))"
proof -
  from assms(1) obtain ep where m: "m = (\<lambda>c p. private_request c ep p)"
    by (rule capability_cases)
  from assms(2) have "server w (issued (private_request c ep p w)) = Inr resp"
    by (simp add: m)
  from fst_private_request [OF this] assms(3,4) show ?thesis
    by (simp add: m ok_def js_or_def Let_def ToString_defined(1))
qed

text \<open>
  The three responses of P5: 400 with \<open>{"error": "bad text"}\<close>, 500 with
  \<open>{"message": "oops"}\<close>, 503 with a body that is no JSON.
\<close>

theorem failure_raises_error_witness:
  "fst (clean \<lparr>apiKey = ''sk_live_test'', baseUrl = ''https://api.cleanflux.ai''\<rparr>
          (VObj [(''text'', VStr ''hi'')])
          \<lparr>server = (\<lambda>rq. Inr \<lparr>status = 400,
                 json_outcome = Inr (VObj [(''error'', VStr ''bad text'')])\<rparr>),
           requests = []\<rparr>)
     = Inl (Error ''CleanFlux API Error: bad text'' (Some 400)
              (Some (VObj [(''error'', VStr ''bad text'')]))) \<and>
   fst (clean \<lparr>apiKey = ''sk_live_test'', baseUrl = ''https://api.cleanflux.ai''\<rparr>
          (VObj [(''text'', VStr ''hi'')])
          \<lparr>server = (\<lambda>rq. Inr \<lparr>status = 500,
                 json_outcome = Inr (VObj [(''message'', VStr ''oops'')])\<rparr>),
           requests = []\<rparr>)
     = Inl (Error ''CleanFlux API Error: oops'' (Some 500)
              (Some (VObj [(''message'', VStr ''oops'')]))) \<and>
   fst (clean \<lparr>apiKey = ''sk_live_test'', baseUrl = ''https://api.cleanflux.ai''\<rparr>
          (VObj [(''text'', VStr ''hi'')])
          \<lparr>server = (\<lambda>rq. Inr \<lparr>status = 503, json_outcome = Inl SyntaxError\<rparr>),
           requests = []\<rparr>)
     = Inl (Error ''CleanFlux API Error: Request failed with status 503'' (Some 503)
              (Some VNull))"
  using
    failure_raises_error [where m = clean and resp = "\<lparr>status = 400,
        json_outcome = Inr (VObj [(''error'', VStr ''bad text'')])\<rparr>"
      and data = "VObj [(''error'', VStr ''bad text'')]" and s = "''bad text''"
      and c = "\<lparr>apiKey = ''sk_live_test'', baseUrl = ''https://api.cleanflux.ai''\<rparr>"
      and p = "VObj [(''text'', VStr ''hi'')]"
      and w = "\<lparr>server = (\<lambda>rq. Inr \<lparr>status = 400,
                 json_outcome = Inr (VObj [(''error'', VStr ''bad text'')])\<rparr>),
           requests = []\<rparr>"]
    failure_raises_error [where m = clean and resp = "\<lparr>status = 500,
        json_outcome = Inr (VObj [(''message'', VStr ''oops'')])\<rparr>"
      and data = "VObj [(''message'', VStr ''oops'')]" and s = "''oops''"
      and c = "\<lparr>apiKey = ''sk_live_test'', baseUrl = ''https://api.cleanflux.ai''\<rparr>"
      and p = "VObj [(''text'', VStr ''hi'')]"
      and w = "\<lparr>server = (\<lambda>rq. Inr \<lparr>status = 500,
                 json_outcome = Inr (VObj [(''message'', VStr ''oops'')])\<rparr>),
           requests = []\<rparr>"]
    failure_raises_error [where m = clean
      and resp = "\<lparr>status = 503, json_outcome = Inl SyntaxError\<rparr>"
      and data = VNull
      and c = "\<lparr>apiKey = ''sk_live_test'', baseUrl = ''https://api.cleanflux.ai''\<rparr>"
      and p = "VObj [(''text'', VStr ''hi'')]"
      and w = "\<lparr>server = (\<lambda>rq. Inr \<lparr>status = 503, json_outcome = Inl SyntaxError\<rparr>),
           requests = []\<rparr>"]
  by (simp add: capability_methods_def opt_chain_def show_nat.simps digit_def)

text \<open>
  C1 as stated fails: a 500 response with the body \<open>{"error": "", "message": "oops"}\<close>
  has an \<open>error\<close> field, so the message as the specification words it is built from
  the empty string; the call builds it from the \<open>message\<close> field.
\<close>

theorem failure_message_counterexample:
  "ToString (spec_message (VObj [(''error'', VStr ''''), (''message'', VStr ''oops'')]) 500)
     = Inr '''' \<and>
   fst (clean \<lparr>apiKey = ''sk_live_test'', baseUrl = ''https://api.cleanflux.ai''\<rparr>
          (VObj [(''text'', VStr ''hi'')])
          \<lparr>server = (\<lambda>rq. Inr \<lparr>status = 500,
                 json_outcome = Inr (VObj [(''error'', VStr ''''), (''message'', VStr ''oops'')])\<rparr>),
           requests = []\<rparr>)
     = Inl (Error ''CleanFlux API Error: oops'' (Some 500)
              (Some (VObj [(''error'', VStr ''''), (''message'', VStr ''oops'')])))"
  by (simp add: spec_message_def clean_def private_request_def fetch_def ok_def
      opt_chain_def js_or_def)

text \<open>
  C4. For every call to a capability method, a response with a status from 200 to 299
  makes the call resolve to the parsed body as it is, whatever its shape.
\<close>

theorem success_passthrough:
  assumes "m \<in> set capability_methods"
    and "server w (issued (m c p w)) = Inr resp"
    and "200 \<le> status resp" and "status resp \<le> 299"
    and "json_outcome resp = Inr v"
  shows "fst (m c p w) = Inr v"
proof -
  from assms(1) obtain ep where m: "m = (\<lambda>c p. private_request c ep p)"
    by (rule capability_cases)
  from assms(2) have "server w (issued (private_request c ep p w)) = Inr resp"
    by (simp add: m)
  from fst_private_request [OF this] assms(3-5) show ?thesis
    by (simp add: m ok_def)
qed

text \<open>P4: a 200 response with the body \<open>{"cleaned": "hi"}\<close>.\<close>

theorem success_passthrough_witness:
  "fst (clean \<lparr>apiKey = ''sk_live_test'', baseUrl = ''https://api.cleanflux.ai''\<rparr>
         (VObj [(''text'', VStr ''x'')])
         \<lparr>server = (\<lambda>rq. Inr \<lparr>status = 200,
                                  json_outcome = Inr (VObj [(''cleaned'', VStr ''hi'')])\<rparr>),
          requests = []\<rparr>)
   = Inr (VObj [(''cleaned'', VStr ''hi'')])"
  by (rule success_passthrough [where resp = "\<lparr>status = 200,
        json_outcome = Inr (VObj [(''cleaned'', VStr ''hi'')])\<rparr>"])
    (simp_all add: capability_methods_def)

text \<open>
  C7. In the shared dispatch routine, a response whose body cannot be parsed as JSON is
  handled as one whose parsed body is \<open>null\<close>: the parse error is not raised, and the
  classification by status runs on the status alone, with the generic fallback message
  on a failure.
\<close>

theorem unparsable_body_is_null:
  assumes "server w (issued (private_request c ep p w)) = Inr resp"
    and "json_outcome resp = Inl e"
  shows "fst (private_request c ep p w) =
           (if ok resp then Inr VNull
            else Inl (Error (''CleanFlux API Error: Request failed with status '' @
                               show_nat (status resp))
                        (Some (status resp)) (Some VNull))) \<and>
         fst (private_request c ep p w) =
           fst (private_request c ep p
                  (w\<lparr>server := \<lambda>rq. Inr (resp\<lparr>json_outcome := Inr VNull\<rparr>)\<rparr>))"
proof -
  let ?w' = "w\<lparr>server := \<lambda>rq. Inr (resp\<lparr>json_outcome := Inr VNull\<rparr>)\<rparr>"
  have "server ?w' (issued (private_request c ep p ?w')) =
          Inr (resp\<lparr>json_outcome := Inr VNull\<rparr>)"
    by simp
  from fst_private_request [OF assms(1)] fst_private_request [OF this] assms(2)
  show ?thesis
    by (simp add: ok_def opt_chain_def js_or_def)
qed

theorem unparsable_body_is_null_witness:
  "fst (private_request \<lparr>apiKey = ''sk_live_test'', baseUrl = ''https://api.cleanflux.ai''\<rparr>
          ''metadata'' (VObj [(''text'', VStr ''hi'')])
          \<lparr>server = (\<lambda>rq. Inr \<lparr>status = 502, json_outcome = Inl SyntaxError\<rparr>),
           requests = []\<rparr>)
     = Inl (Error ''CleanFlux API Error: Request failed with status 502'' (Some 502)
              (Some VNull))"
  using unparsable_body_is_null
    [of "\<lparr>server = (\<lambda>rq. Inr \<lparr>status = 502, json_outcome = Inl SyntaxError\<rparr>),
           requests = []\<rparr>"
        "\<lparr>apiKey = ''sk_live_test'', baseUrl = ''https://api.cleanflux.ai''\<rparr>"
        "''metadata''" "VObj [(''text'', VStr ''hi'')]"
        "\<lparr>status = 502, json_outcome = Inl SyntaxError\<rparr>" SyntaxError]
  by (simp add: ok_def show_nat.simps digit_def)

text \<open>
  C9. For every call to a capability method, a response with a status from 200 to 299
  and a body that is no JSON makes the call resolve to \<open>null\<close>: it does not raise.
\<close>

theorem unparsable_success_is_null:
  assumes "m \<in> set capability_methods"
    and "server w (issued (m c p w)) = Inr resp"
    and "200 \<le> status resp" and "status resp \<le> 299"
    and "json_outcome resp = Inl e"
  shows "fst (m c p w) = Inr VNull"
proof -
  from assms(1) obtain ep where m: "m = (\<lambda>c p. private_request c ep p)"
    by (rule capability_cases)
  from assms(2) have "server w (issued (private_request c ep p w)) = Inr resp"
    by (simp add: m)
  from fst_private_request [OF this] assms(3-5) show ?thesis
    by (simp add: m ok_def)
qed

theorem unparsable_success_is_null_witness:
  "fst (extractUrls \<lparr>apiKey = ''sk_live_test'', baseUrl = ''https://api.cleanflux.ai''\<rparr>
         (VObj [(''text'', VStr ''x'')])
         \<lparr>server = (\<lambda>rq. Inr \<lparr>status = 204, json_outcome = Inl SyntaxError\<rparr>),
          requests = []\<rparr>)
   = Inr VNull"
  by (rule unparsable_success_is_null
        [where resp = "\<lparr>status = 204, json_outcome = Inl SyntaxError\<rparr>"])
    (simp_all add: capability_methods_def)

text \<open>
  C5. Each capability method posts to its own fixed path under \<open>{baseUrl}/api/\<close>:
  \<open>clean\<close>, \<open>normalize\<close>, \<open>extract-urls\<close>, \<open>remove-profanity\<close> and \<open>metadata\<close>; the path
  of \<open>removeProfanity\<close> is not \<open>removeProfanity\<close>.
\<close>

theorem capability_endpoints:
  "url (issued (clean c p w)) = baseUrl c @ ''/api/clean'' \<and>
   url (issued (normalize_js c p w)) = baseUrl c @ ''/api/normalize'' \<and>
   url (issued (extractUrls c p w)) = baseUrl c @ ''/api/extract-urls'' \<and>
   url (issued (removeProfanity c p w)) = baseUrl c @ ''/api/remove-profanity'' \<and>
   url (issued (metadata c p w)) = baseUrl c @ ''/api/metadata'' \<and>
   url (issued (removeProfanity c p w)) \<noteq> baseUrl c @ ''/api/removeProfanity''"
  by (simp add: clean_def normalize_js_def extractUrls_def removeProfanity_def metadata_def
      issued_private_request)

text \<open>
  C8, as amended. For every payload that is JSON data (\<open>null\<close>, booleans, numbers,
  strings, arrays and objects of these), the body each capability method sends is that
  payload as it is: the same keys and values, nothing added, renamed, dropped or
  changed.
\<close>

theorem payload_fidelity:
  "\<forall>m\<in>set capability_methods. body (issued (m c (of_json d) w)) = Some d"
  by (simp add: capability_methods_def clean_def normalize_js_def extractUrls_def
      removeProfanity_def metadata_def issued_private_request stringify_of_json)

text \<open>The payload of the scenario of the specification, sent by \<open>normalize\<close>.\<close>

theorem payload_fidelity_witness:
  "body (issued (normalize_js
           \<lparr>apiKey = ''sk_live_test'', baseUrl = ''https://api.cleanflux.ai''\<rparr>
           (VObj [(''text'', VStr ''  Hello   World  ''),
                  (''options'', VObj [(''trim'', VBool True), (''collapseWhitespace'', VBool True)])])
           \<lparr>server = (\<lambda>rq. Inl TypeError), requests = []\<rparr>))
     = Some (JObj [(''text'', JStr ''  Hello   World  ''),
                   (''options'', JObj [(''trim'', JBool True), (''collapseWhitespace'', JBool True)])])"
  using payload_fidelity
    [of "\<lparr>apiKey = ''sk_live_test'', baseUrl = ''https://api.cleanflux.ai''\<rparr>"
        "JObj [(''text'', JStr ''  Hello   World  ''),
               (''options'', JObj [(''trim'', JBool True), (''collapseWhitespace'', JBool True)])]"
        "\<lparr>server = (\<lambda>rq. Inl TypeError), requests = []\<rparr>"]
  by (simp add: capability_methods_def)

text \<open>
  C8 as stated fails: of the payload \<open>{text: "hi", options: undefined}\<close> the body sent
  is \<open>{"text": "hi"}\<close>; the field \<open>options\<close> is dropped.
\<close>

theorem payload_fidelity_counterexample:
  "body (issued (clean \<lparr>apiKey = ''sk_live_test'', baseUrl = ''https://api.cleanflux.ai''\<rparr>
                   (VObj [(''text'', VStr ''hi''), (''options'', VUndefined)])
                   \<lparr>server = (\<lambda>rq. Inl TypeError), requests = []\<rparr>))
     = Some (JObj [(''text'', JStr ''hi'')]) \<and>
   of_json (JObj [(''text'', JStr ''hi'')]) \<noteq>
     VObj [(''text'', VStr ''hi''), (''options'', VUndefined)]"
  by (simp add: clean_def issued_private_request)

section \<open>The connectivity check\<close>

text \<open>
  C3. \<open>ping()\<close> hands \<open>fetch\<close> one request: a GET of \<open>{baseUrl}/api/ping\<close> whose only
  header is \<open>User-Agent\<close>, with no API key and no body. Whatever the status of the
  response, it resolves to the parsed body; it never raises the error of the dispatch
  routine.
\<close>

theorem ping_request_and_result:
  "issued (ping c w) =
     \<lparr>url = baseUrl c @ ''/api/ping'', http_method = ''GET'',
      headers = [(''User-Agent'', ''cleanflux-js/1.0.0'')], body = None\<rparr> \<and>
   requests (snd (ping c w)) = requests w @ [issued (ping c w)] \<and>
   (\<forall>resp v. server w (issued (ping c w)) = Inr resp \<and> json_outcome resp = Inr v \<longrightarrow>
      fst (ping c w) = Inr v) \<and>
   (\<forall>msg st r. fst (ping c w) \<noteq> Inl (Error msg st r))"
  by (simp add: ping_def issued_def fetch_def split: sum.splits)

text \<open>A 500 response with the body \<open>{"status": "down"}\<close>.\<close>

theorem ping_request_and_result_witness:
  "fst (ping \<lparr>apiKey = ''sk_live_test'', baseUrl = ''https://api.cleanflux.ai''\<rparr>
          \<lparr>server = (\<lambda>rq. Inr \<lparr>status = 500,
                 json_outcome = Inr (VObj [(''status'', VStr ''down'')])\<rparr>),
           requests = []\<rparr>)
     = Inr (VObj [(''status'', VStr ''down'')])"
  using ping_request_and_result
    [of "\<lparr>apiKey = ''sk_live_test'', baseUrl = ''https://api.cleanflux.ai''\<rparr>"
        "\<lparr>server = (\<lambda>rq. Inr \<lparr>status = 500,
                 json_outcome = Inr (VObj [(''status'', VStr ''down'')])\<rparr>),
           requests = []\<rparr>"]
  by simp

section \<open>Construction\<close>

text \<open>
  C2, as amended. Constructing a client with no API key, an empty string key or a
  key that is no string fails: a falsy key (\<open>undefined\<close>, \<open>null\<close>, the empty string,
  \<open>false\<close>, \<open>0\<close>, \<open>NaN\<close>) with the message that the API key is required, a truthy key
  that is no string with the message that the API key must be a string. Constructing
  with a non-empty string key succeeds, given options of the documented type.
\<close>

theorem constructor_validation:
  "(\<not> truthy k \<longrightarrow>
      constructor k opts =
        Inl (Error ''CleanFlux: API key is required. Get yours at https://cleanflux.ai/dashboard''
               None None)) \<and>
   (truthy k \<and> (\<forall>s. k \<noteq> VStr s) \<longrightarrow>
      constructor k opts = Inl (Error ''CleanFlux: API key must be a string'' None None)) \<and>
   (s \<noteq> [] \<and> options_well_typed opts \<longrightarrow>
      (\<exists>c. constructor (VStr s) opts = Inr c \<and> apiKey c = s))"
proof (intro conjI impI)
  assume "\<not> truthy k"
  then show "constructor k opts =
        Inl (Error ''CleanFlux: API key is required. Get yours at https://cleanflux.ai/dashboard''
               None None)"
    by (simp add: constructor_def)
next
  assume "truthy k \<and> (\<forall>s. k \<noteq> VStr s)"
  then show "constructor k opts = Inl (Error ''CleanFlux: API key must be a string'' None None)"
    by (cases k) (simp_all add: constructor_def)
next
  assume a: "s \<noteq> [] \<and> options_well_typed opts"
  then have "opts \<noteq> VNull"
    by (auto simp: options_well_typed_def)
  with a have c: "constructor (VStr s) opts =
     (case replace_trailing_slash
             (js_or (opt_chain opts ''baseUrl'') (VStr ''https://api.cleanflux.ai'')) of
        Inl e \<Rightarrow> Inl e
      | Inr b \<Rightarrow> Inr \<lparr>apiKey = s, baseUrl = b\<rparr>)"
    by (simp add: constructor_string_key)
  from a have "\<exists>b. js_or (opt_chain opts ''baseUrl'') (VStr ''https://api.cleanflux.ai'') = VStr b"
    by (simp add: well_typed_base_is_string)
  with c show "\<exists>c. constructor (VStr s) opts = Inr c \<and> apiKey c = s"
    by auto
qed

theorem constructor_validation_witness:
  "constructor VUndefined VUndefined =
     Inl (Error ''CleanFlux: API key is required. Get yours at https://cleanflux.ai/dashboard''
            None None) \<and>
   constructor (VStr '''') VUndefined =
     Inl (Error ''CleanFlux: API key is required. Get yours at https://cleanflux.ai/dashboard''
            None None) \<and>
   constructor (VNum 42) VUndefined =
     Inl (Error ''CleanFlux: API key must be a string'' None None) \<and>
   (\<exists>c. constructor (VStr ''sk_live_test'') VUndefined = Inr c \<and> apiKey c = ''sk_live_test'')"
  using constructor_validation [of VUndefined VUndefined "''sk_live_test''"]
    constructor_validation [of "VStr ''''" VUndefined "''sk_live_test''"]
    constructor_validation [of "VNum 42" VUndefined "''sk_live_test''"]
  by (simp add: options_well_typed_def)

text \<open>
  C2 as stated fails: the key \<open>0\<close> is no string, and the message is that the API key
  is required, not that it must be a string.
\<close>

theorem constructor_key_counterexample:
  "constructor (VNum 0) VUndefined =
     Inl (Error ''CleanFlux: API key is required. Get yours at https://cleanflux.ai/dashboard''
            None None) \<and>
   constructor (VNum 0) VUndefined \<noteq>
     Inl (Error ''CleanFlux: API key must be a string'' None None)"
  by (simp add: constructor_def)

text \<open>
  C6, as amended. At construction one trailing slash of \<open>baseUrl\<close>, if there is one, is
  removed, once: of a \<open>baseUrl\<close> that ends in \<open>/\<close> everything before that slash is kept,
  and a \<open>baseUrl\<close> that does not end in \<open>/\<close> is kept as it is. Appending the endpoint
  path then adds no double slash, unless the given \<open>baseUrl\<close> ends in two slashes.
\<close>

theorem base_url_normalization:
  assumes "k \<noteq> []" and "map_of kvs ''baseUrl'' = Some (VStr b)" and "b \<noteq> []"
  shows "constructor (VStr k) (VObj kvs) =
           Inr \<lparr>apiKey = k, baseUrl = strip_trailing_slash b\<rparr> \<and>
         (\<forall>b'. b = b' @ ''/'' \<longrightarrow> strip_trailing_slash b = b') \<and>
         (last b \<noteq> CHR ''/'' \<longrightarrow> strip_trailing_slash b = b) \<and>
         (\<not> ends_with ''//'' b \<longrightarrow>
            count_double_slash
              (url (issued (private_request
                      \<lparr>apiKey = k, baseUrl = strip_trailing_slash b\<rparr> ep p w))) =
              count_double_slash (strip_trailing_slash b) + count_double_slash (''/api/'' @ ep))"
proof (intro conjI allI impI)
  from assms show "constructor (VStr k) (VObj kvs) =
           Inr \<lparr>apiKey = k, baseUrl = strip_trailing_slash b\<rparr>"
    by (simp add: constructor_string_key opt_chain_def js_or_def)
next
  fix b' assume "b = b' @ ''/''"
  then show "strip_trailing_slash b = b'"
    by (simp add: strip_trailing_slash_def)
next
  assume "last b \<noteq> CHR ''/''"
  then show "strip_trailing_slash b = b"
    by (simp add: strip_trailing_slash_def)
next
  assume "\<not> ends_with ''//'' b"
  from strip_no_trailing_slash [OF this]
  show "count_double_slash
          (url (issued (private_request
                  \<lparr>apiKey = k, baseUrl = strip_trailing_slash b\<rparr> ep p w))) =
          count_double_slash (strip_trailing_slash b) + count_double_slash (''/api/'' @ ep)"
    by (auto simp: issued_private_request count_double_slash_append)
qed

text \<open>P2: the base URL \<open>https://x.test/\<close>.\<close>

theorem base_url_normalization_witness:
  "constructor (VStr ''sk_live_test'') (VObj [(''baseUrl'', VStr ''https://x.test/'')]) =
     Inr \<lparr>apiKey = ''sk_live_test'', baseUrl = ''https://x.test''\<rparr> \<and>
   count_double_slash
     (url (issued (private_request
             \<lparr>apiKey = ''sk_live_test'', baseUrl = ''https://x.test''\<rparr> ''clean''
             (VObj [(''text'', VStr ''hi'')])
             \<lparr>server = (\<lambda>rq. Inl TypeError), requests = []\<rparr>))) = 1"
  using base_url_normalization [of "''sk_live_test''" "[(''baseUrl'', VStr ''https://x.test/'')]"
      "''https://x.test/''" "''clean''" "VObj [(''text'', VStr ''hi'')]"
      "\<lparr>server = (\<lambda>rq. Inl TypeError), requests = []\<rparr>"]
  by (simp add: strip_trailing_slash_def ends_with_def)

text \<open>
  C6 as stated fails: of the base URL \<open>https://x.test//\<close> one slash is left, and the
  URL of \<open>clean\<close> is \<open>https://x.test//api/clean\<close>, with a double slash that neither the
  stored base URL nor the endpoint path holds.
\<close>

theorem base_url_counterexample:
  "constructor (VStr ''sk_live_test'') (VObj [(''baseUrl'', VStr ''https://x.test//'')]) =
     Inr \<lparr>apiKey = ''sk_live_test'', baseUrl = ''https://x.test/''\<rparr> \<and>
   url (issued (clean \<lparr>apiKey = ''sk_live_test'', baseUrl = ''https://x.test/''\<rparr>
                  (VObj [(''text'', VStr ''hi'')])
                  \<lparr>server = (\<lambda>rq. Inl TypeError), requests = []\<rparr>))
     = ''https://x.test//api/clean'' \<and>
   count_double_slash ''https://x.test/'' = 1 \<and>
   count_double_slash ''/api/clean'' = 0 \<and>
   count_double_slash ''https://x.test//api/clean'' = 2"
  by (simp add: constructor_def opt_chain_def js_or_def strip_trailing_slash_def
      clean_def issued_private_request)

text \<open>
  C10. An \<open>options.baseUrl\<close> that is the empty string, like every falsy one, leaves
  the client with the default \<open>https://api.cleanflux.ai\<close>; a non-empty string takes
  effect.
\<close>

theorem falsy_base_url_falls_back:
  assumes "k \<noteq> []" and "map_of kvs ''baseUrl'' = Some v"
  shows "(\<not> truthy v \<longrightarrow>
            constructor (VStr k) (VObj kvs) =
              Inr \<lparr>apiKey = k, baseUrl = ''https://api.cleanflux.ai''\<rparr>) \<and>
         (\<forall>b. v = VStr b \<and> b \<noteq> [] \<longrightarrow>
            constructor (VStr k) (VObj kvs) =
              Inr \<lparr>apiKey = k, baseUrl = strip_trailing_slash b\<rparr>)"
  using assms
  by (simp add: constructor_string_key opt_chain_def js_or_def strip_trailing_slash_def)

theorem falsy_base_url_falls_back_witness:
  "constructor (VStr ''sk_live_test'') (VObj [(''baseUrl'', VStr '''')]) =
     Inr \<lparr>apiKey = ''sk_live_test'', baseUrl = ''https://api.cleanflux.ai''\<rparr> \<and>
   constructor (VStr ''sk_live_test'') (VObj [(''baseUrl'', VStr ''https://x.test'')]) =
     Inr \<lparr>apiKey = ''sk_live_test'', baseUrl = ''https://x.test''\<rparr>"
  using falsy_base_url_falls_back [of "''sk_live_test''" "[(''baseUrl'', VStr '''')]" "VStr ''''"]
    falsy_base_url_falls_back [of "''sk_live_test''" "[(''baseUrl'', VStr ''https://x.test'')]"
      "VStr ''https://x.test''"]
  by (simp add: strip_trailing_slash_def)

end
